theory Spec2Isabelle
  imports Main "HOL-Library.Word" "HOL-Library.Sublist"
begin

section \<open>The task client of \<^verbatim>\<open>static/js/app.js\<close>\<close>

text \<open>
  The class \<^verbatim>\<open>AITodoApp\<close> is an event-driven program: handlers run to completion, an
  \<^verbatim>\<open>async\<close> method runs up to its next \<^verbatim>\<open>await\<close> and is resumed when the awaited
  promise settles. It is embedded as a state record (the field \<^verbatim>\<open>this.tasks\<close>, the parts
  of the page the methods read and write, the requests issued and the methods suspended
  at an \<^verbatim>\<open>await\<close>) and a function \<open>step\<close> that runs one handler or one resumption.
\<close>

subsection \<open>Strings\<close>

text \<open>
  A JavaScript string is a sequence of UTF-16 code units. \<open>lit\<close> embeds the ASCII
  literals of the source.
\<close>

type_synonym jschar = "16 word"
type_synonym jsstring = "jschar list"

definition lit :: "string \<Rightarrow> jsstring" where
  "lit cs = map of_char cs"

text \<open>
  \<^verbatim>\<open>String.prototype.trim\<close> removes the code points of the productions WhiteSpace and
  LineTerminator of ECMAScript from both ends: TAB, LF, VT, FF, CR, SP, NBSP, U+1680,
  U+2000 to U+200A, LS, PS, U+202F, U+205F, U+3000 and U+FEFF.
\<close>

definition isWhiteSpace :: "jschar \<Rightarrow> bool" where
  "isWhiteSpace c \<longleftrightarrow>
     c = 0x09 \<or> c = 0x0A \<or> c = 0x0B \<or> c = 0x0C \<or> c = 0x0D \<or> c = 0x20 \<or> c = 0xA0 \<or>
     c = 0x1680 \<or> (0x2000 \<le> c \<and> c \<le> 0x200A) \<or> c = 0x2028 \<or> c = 0x2029 \<or>
     c = 0x202F \<or> c = 0x205F \<or> c = 0x3000 \<or> c = 0xFEFF"

definition trim :: "jsstring \<Rightarrow> jsstring" where
  "trim s = rev (dropWhile isWhiteSpace (rev (dropWhile isWhiteSpace s)))"

text \<open>
  The decimal text of an integer, as a template literal renders a number in the range of
  the integers that a JavaScript number holds exactly.
\<close>

fun digits :: "nat \<Rightarrow> jsstring" where
  "digits n = (if n < 10 then [of_nat (48 + n)] else digits (n div 10) @ [of_nat (48 + n mod 10)])"

definition showInt :: "int \<Rightarrow> jsstring" where
  "showInt i = (if i < 0 then 0x2D # digits (nat (- i)) else digits (nat i))"

subsection \<open>\<^verbatim>\<open>escapeHtml\<close>\<close>

text \<open>
  \<^verbatim>\<open>
  escapeHtml(text) {
      const div = document.createElement('div');
      div.textContent = text;
      return div.innerHTML;
  }
  \<close>
  The \<^verbatim>\<open>div\<close> holds one text node, and \<^verbatim>\<open>innerHTML\<close> serialises it with the HTML
  standard's string escaping outside attribute mode: \<^verbatim>\<open>&\<close>, NBSP, \<^verbatim>\<open><\<close> and \<^verbatim>\<open>>\<close> are
  replaced; quotation marks are left as they are.
\<close>

definition escapeChar :: "jschar \<Rightarrow> jsstring" where
  "escapeChar c =
     (if c = 0x26 then lit ''&amp;''
      else if c = 0xA0 then lit ''&nbsp;''
      else if c = 0x3C then lit ''&lt;''
      else if c = 0x3E then lit ''&gt;''
      else [c])"

definition escapeHtml :: "jsstring \<Rightarrow> jsstring" where
  "escapeHtml text = concat (map escapeChar text)"


subsection \<open>Tasks and the task markup\<close>

text \<open>
  A task as the list service returns it. \<open>date\<close> and \<open>time\<close> are optional: \<open>None\<close> is a
  field that is absent or \<^verbatim>\<open>null\<close>. The identifier is an integer and \<open>completed\<close> a
  boolean, as the interface of the service has them.
\<close>

record task =
  task_id :: int
  title :: jsstring
  date :: "jsstring option"
  time :: "jsstring option"
  original_text :: jsstring
  completed :: bool

definition createTaskHTML :: "task \<Rightarrow> jsstring" where
  \<open>createTaskHTML task =
     (let completedClass = (if completed task then lit ''completed'' else []);
          checkIcon = (if completed task then lit ''fas fa-check-circle'' else lit ''far fa-circle'')
      in
      lit ''\<newline>            <div class="task-item '' @
      completedClass @
      lit ''" data-task-id="'' @
      showInt (task_id task) @
      lit ''">\<newline>                <div class="d-flex justify-content-between align-items-start">\<newline>                    <div class="flex-grow-1">\<newline>                        <h6 class="task-title">'' @
      escapeHtml (title task) @
      lit ''</h6>\<newline>                        \<newline>                        <div class="task-meta">\<newline>                            '' @
      (case date task of
          Some d \<Rightarrow> if d \<noteq> [] then lit ''<span class="task-badge badge-date"><i class="fas fa-calendar me-1"></i>'' @ d @ lit ''</span>'' else []
        | None \<Rightarrow> []) @
      lit ''\<newline>                            '' @
      (case time task of
          Some t \<Rightarrow> if t \<noteq> [] then lit ''<span class="task-badge badge-time"><i class="fas fa-clock me-1"></i>'' @ t @ lit ''</span>'' else []
        | None \<Rightarrow> []) @
      lit ''\<newline>                        </div>\<newline>                        \<newline>                        <div class="task-original">\<newline>                            <i class="fas fa-quote-left me-1"></i>\<newline>                            "'' @
      escapeHtml (original_text task) @
      lit ''"\<newline>                        </div>\<newline>                    </div>\<newline>                    \<newline>                    <div class="btn-group btn-group-sm ms-3" role="group">\<newline>                        <button type="button" class="btn btn-outline-success toggle-btn" data-task-id="'' @
      showInt (task_id task) @
      lit ''">\<newline>                            <i class="'' @
      checkIcon @
      lit ''"></i>\<newline>                        </button>\<newline>                        <button type="button" class="btn btn-outline-danger delete-btn" data-task-id="'' @
      showInt (task_id task) @
      lit ''">\<newline>                            <i class="fas fa-trash"></i>\<newline>                        </button>\<newline>                    </div>\<newline>                </div>\<newline>            </div>\<newline>        ''
     )\<close>

subsection \<open>Responses of the two services\<close>

text \<open>
  A response body is JSON: \<^verbatim>\<open>null\<close>, or a value whose properties can be read. The
  properties the client reads are \<^verbatim>\<open>success\<close> (only its truthiness), \<^verbatim>\<open>error\<close>,
  \<^verbatim>\<open>parsed\<close> and \<^verbatim>\<open>tasks\<close>; a property that is absent or \<^verbatim>\<open>null\<close> is \<open>None\<close>, and a
  body with none of them stands for every non-null body that is not an object of the
  interface. A property that is present has the type the interface gives it: \<^verbatim>\<open>parsed\<close>
  is an object with a title, \<^verbatim>\<open>tasks\<close> an array of tasks (an empty array is truthy).
  The confidence is a number of type \<open>'n\<close>, whose arithmetic is a parameter.
\<close>

record 'n parsed =
  p_title :: jsstring
  p_date :: "jsstring option"
  p_time :: "jsstring option"
  p_confidence :: "'n option"

record 'n data =
  d_success :: bool
  d_error :: "jsstring option"
  d_parsed :: "'n parsed option"
  d_tasks :: "task list option"

datatype 'n body = JNull | JObject "'n data"

text \<open>
  What \<^verbatim>\<open>await fetch(...)\<close> followed by \<^verbatim>\<open>await response.json()\<close> gives: the first
  rejects when the request fails, the second when the body is not JSON (each with the
  message of the error), and otherwise the body is there. The status code is never read.
\<close>

datatype 'n outcome = FetchFailed jsstring | BodyMalformed jsstring | Body "'n body"

record 'n numops =
  isTruthy :: "'n \<Rightarrow> bool"
  roundPercent :: "'n \<Rightarrow> jsstring"

text \<open>
  \<open>isTruthy c\<close> is the test \<^verbatim>\<open>if (parsed.confidence)\<close> and \<open>roundPercent c\<close> the text of
  \<^verbatim>\<open>Math.round(parsed.confidence * 100)\<close>.
\<close>

definition orElse :: "jsstring option \<Rightarrow> jsstring \<Rightarrow> jsstring" where
  "orElse v d = (case v of Some m \<Rightarrow> if m \<noteq> [] then m else d | None \<Rightarrow> d)"

definition json :: "'n outcome \<Rightarrow> jsstring + 'n body" where
  "json r = (case r of FetchFailed m \<Rightarrow> Inl m | BodyMalformed m \<Rightarrow> Inl m | Body b \<Rightarrow> Inr b)"

text \<open>
  Reading a property of \<^verbatim>\<open>null\<close> or \<^verbatim>\<open>undefined\<close> throws a TypeError. The wording of
  its message is the engine's; this is V8's.
\<close>

definition typeErrorMessage :: "string \<Rightarrow> string \<Rightarrow> jsstring" where
  "typeErrorMessage v name =
     lit (''Cannot read properties of '' @ v @ '' (reading '' @ [CHR 0x27] @ name @ [CHR 0x27] @ '')'')"

definition properties :: "string \<Rightarrow> 'n body \<Rightarrow> jsstring + 'n data" where
  "properties name b =
     (case b of JNull \<Rightarrow> Inl (typeErrorMessage ''null'' name) | JObject d \<Rightarrow> Inr d)"

subsection \<open>Requests and suspended methods\<close>

record create_body =
  b_title :: jsstring
  b_date :: "jsstring option"
  b_time :: "jsstring option"
  b_original_text :: jsstring

datatype request =
    POST_parse_task jsstring
  | GET_tasks
  | POST_tasks create_body
  | POST_toggle int
  | DELETE_task int

text \<open>
  Where a method waits, with the local variables it still reads: \<^verbatim>\<open>addTask\<close> keeps
  \<^verbatim>\<open>text\<close> across its first \<^verbatim>\<open>await\<close>.
\<close>

datatype await =
    ShowAIPreview_await
  | AddTask_parse jsstring
  | AddTask_add
  | LoadTasks_await
  | ToggleTask_await
  | DeleteTask_await

subsection \<open>The state\<close>

text \<open>
  Where the element \<^verbatim>\<open>#emptyState\<close> is: not in the document, inside \<^verbatim>\<open>#tasksContainer\<close>,
  or elsewhere in the document.
\<close>

datatype es_loc = NoEmptyState | InContainer | Elsewhere

text \<open>
  \<open>tasks\<close> is \<^verbatim>\<open>this.tasks\<close>; the next eleven fields are the page: the value of
  \<^verbatim>\<open>#taskInput\<close>, whether \<^verbatim>\<open>#aiPreview\<close> and \<^verbatim>\<open>#loadingIndicator\<close> carry the class
  \<^verbatim>\<open>d-none\<close>, the markup last assigned to \<^verbatim>\<open>innerHTML\<close> of \<^verbatim>\<open>#aiPreviewText\<close> and of
  \<^verbatim>\<open>#tasksContainer\<close>, the element \<^verbatim>\<open>#emptyState\<close>, the numbers shown by the four
  counters, and the notices appended to the body (message and type, oldest first; their
  removal after three seconds is not modelled). \<open>requests\<close> lists the calls of
  \<^verbatim>\<open>fetch\<close>, oldest first, each with the number under which its method waits in
  \<open>awaiting\<close>.
\<close>

record app =
  tasks :: "task list"
  taskInput :: jsstring
  aiPreview_hidden :: bool
  aiPreviewText :: jsstring
  loadingIndicator_hidden :: bool
  tasksContainer :: jsstring
  emptyState :: es_loc
  emptyState_display :: jsstring
  taskCount :: int
  totalTasks :: int
  completedTasks :: int
  pendingTasks :: int
  alerts :: "(jsstring \<times> jsstring) list"
  requests :: "(nat \<times> request) list"
  awaiting :: "(nat \<times> await) list"
  next_id :: nat

definition fetch :: "request \<Rightarrow> await \<Rightarrow> app \<Rightarrow> app" where
  "fetch rq a s =
     s\<lparr>requests := requests s @ [(next_id s, rq)],
       awaiting := awaiting s @ [(next_id s, a)],
       next_id := Suc (next_id s)\<rparr>"

subsection \<open>Notices and the loading indicator\<close>

definition showLoading :: "bool \<Rightarrow> app \<Rightarrow> app" where
  "showLoading show s = s\<lparr>loadingIndicator_hidden := \<not> show\<rparr>"

definition showAlert :: "jsstring \<Rightarrow> jsstring \<Rightarrow> app \<Rightarrow> app" where
  "showAlert message type s = s\<lparr>alerts := alerts s @ [(message, type)]\<rparr>"

subsection \<open>Rendering\<close>

text \<open>
  \<^verbatim>\<open>renderTasks\<close>. Assigning \<^verbatim>\<open>innerHTML\<close> removes what the container held, so an
  \<^verbatim>\<open>#emptyState\<close> inside it leaves the document when a list is rendered, and the next
  empty list finds none and writes the placeholder markup.
\<close>

definition renderTasks :: "app \<Rightarrow> app" where
  \<open>renderTasks s =
     (let s1 = (if emptyState s \<noteq> NoEmptyState then s\<lparr>emptyState_display := lit ''none''\<rparr> else s)
      in if length (tasks s1) = 0
         then (if emptyState s1 \<noteq> NoEmptyState
               then s1\<lparr>emptyState_display := lit ''block'', tasksContainer := [],
                       emptyState := InContainer\<rparr>
               else s1\<lparr>tasksContainer :=
                       lit ''<div class="text-center py-4 text-muted">No tasks yet. Add your first one above.</div>''\<rparr>)
         else s1\<lparr>tasksContainer := concat (map createTaskHTML (tasks s1)),
                 emptyState := (if emptyState s1 = InContainer then NoEmptyState
                                else emptyState s1)\<rparr>)\<close>

definition updateStats :: "app \<Rightarrow> app" where
  "updateStats s =
     (let total = int (length (tasks s));
          completed = int (length (filter completed (tasks s)));
          pending = total - completed
      in s\<lparr>taskCount := total, totalTasks := total,
            completedTasks := completed, pendingTasks := pending\<rparr>)"

subsection \<open>\<^verbatim>\<open>loadTasks\<close>\<close>

definition loadTasks :: "app \<Rightarrow> app" where
  "loadTasks s = fetch GET_tasks LoadTasks_await s"

definition loadTasks_try :: "'n outcome \<Rightarrow> app \<Rightarrow> jsstring + app" where
  "loadTasks_try r s =
     (case json r of
        Inl e \<Rightarrow> Inl e
      | Inr b \<Rightarrow>
          (case properties ''tasks'' b of
             Inl e \<Rightarrow> Inl e
           | Inr d \<Rightarrow>
               (case d_tasks d of
                  Some ts \<Rightarrow> Inr (updateStats (renderTasks (s\<lparr>tasks := ts\<rparr>)))
                | None \<Rightarrow> Inr s)))"

definition loadTasks_resume :: "'n outcome \<Rightarrow> app \<Rightarrow> app" where
  "loadTasks_resume r s =
     (case loadTasks_try r s of
        Inl e \<Rightarrow> showAlert (lit ''Error loading tasks'') (lit ''danger'') s
      | Inr s' \<Rightarrow> s')"

subsection \<open>\<^verbatim>\<open>showAIPreview\<close>\<close>

definition previewHTML :: "'n numops \<Rightarrow> 'n parsed \<Rightarrow> jsstring" where
  \<open>previewHTML ops p =
     lit ''<strong>'' @ p_title p @ lit ''</strong>'' @
     (case p_date p of
        Some d \<Rightarrow> if d \<noteq> [] then lit '' <span class="badge bg-success">'' @ d @ lit ''</span>'' else []
      | None \<Rightarrow> []) @
     (case p_time p of
        Some t \<Rightarrow> if t \<noteq> [] then lit '' <span class="badge bg-info">'' @ t @ lit ''</span>'' else []
      | None \<Rightarrow> []) @
     (case p_confidence p of
        Some c \<Rightarrow> if isTruthy ops c
                  then lit '' <small class="text-muted">('' @ roundPercent ops c @ lit ''% confidence)</small>''
                  else []
      | None \<Rightarrow> [])\<close>

definition showAIPreview :: "jsstring \<Rightarrow> app \<Rightarrow> app" where
  "showAIPreview text s =
     (if text = [] \<or> length text < 3 then s\<lparr>aiPreview_hidden := True\<rparr>
      else fetch (POST_parse_task text) ShowAIPreview_await s)"

definition showAIPreview_try :: "'n numops \<Rightarrow> 'n outcome \<Rightarrow> app \<Rightarrow> jsstring + app" where
  "showAIPreview_try ops r s =
     (case json r of
        Inl e \<Rightarrow> Inl e
      | Inr b \<Rightarrow>
          (case properties ''success'' b of
             Inl e \<Rightarrow> Inl e
           | Inr d \<Rightarrow>
               if d_success d
               then (case d_parsed d of
                       Some p \<Rightarrow>
                         Inr (s\<lparr>aiPreviewText := previewHTML ops p, aiPreview_hidden := False\<rparr>)
                     | None \<Rightarrow> Inr (s\<lparr>aiPreview_hidden := True\<rparr>))
               else Inr (s\<lparr>aiPreview_hidden := True\<rparr>)))"

definition showAIPreview_resume :: "'n numops \<Rightarrow> 'n outcome \<Rightarrow> app \<Rightarrow> app" where
  "showAIPreview_resume ops r s =
     (case showAIPreview_try ops r s of
        Inl e \<Rightarrow> s\<lparr>aiPreview_hidden := True\<rparr>
      | Inr s' \<Rightarrow> s')"

subsection \<open>\<^verbatim>\<open>addTask\<close>\<close>

text \<open>
  \<^verbatim>\<open>addTask\<close> has three parts: up to the first \<^verbatim>\<open>await\<close>, from the parse response to the
  second, and from the add response to the end. The \<^verbatim>\<open>catch\<close> and \<^verbatim>\<open>finally\<close> blocks run
  in the part where the method ends.
\<close>

definition addTask :: "app \<Rightarrow> app" where
  "addTask s =
     (let text = trim (taskInput s)
      in if text = [] then showAlert (lit ''Please enter a task'') (lit ''warning'') s
         else fetch (POST_parse_task text) (AddTask_parse text) (showLoading True s))"

definition addTask_catch :: "jsstring \<Rightarrow> app \<Rightarrow> app" where
  "addTask_catch message s =
     showLoading False (showAlert (lit ''Error adding task: '' @ message) (lit ''danger'') s)"

definition addTask_parse_try :: "jsstring \<Rightarrow> 'n outcome \<Rightarrow> app \<Rightarrow> jsstring + app" where
  "addTask_parse_try text r s =
     (case json r of
        Inl e \<Rightarrow> Inl e
      | Inr b \<Rightarrow>
          (case properties ''success'' b of
             Inl e \<Rightarrow> Inl e
           | Inr parseData \<Rightarrow>
               if \<not> d_success parseData
               then Inl (orElse (d_error parseData) (lit ''Failed to parse task''))
               else (case d_parsed parseData of
                       None \<Rightarrow> Inl (typeErrorMessage ''undefined'' ''title'')
                     | Some p \<Rightarrow>
                         Inr (fetch (POST_tasks \<lparr>b_title = p_title p, b_date = p_date p,
                                                 b_time = p_time p, b_original_text = text\<rparr>)
                                AddTask_add s))))"

definition addTask_parse_resume :: "jsstring \<Rightarrow> 'n outcome \<Rightarrow> app \<Rightarrow> app" where
  "addTask_parse_resume text r s =
     (case addTask_parse_try text r s of
        Inl e \<Rightarrow> addTask_catch e s
      | Inr s' \<Rightarrow> s')"

definition addTask_add_try :: "'n outcome \<Rightarrow> app \<Rightarrow> jsstring + app" where
  "addTask_add_try r s =
     (case json r of
        Inl e \<Rightarrow> Inl e
      | Inr b \<Rightarrow>
          (case properties ''success'' b of
             Inl e \<Rightarrow> Inl e
           | Inr addData \<Rightarrow>
               if d_success addData
               then Inr (showAlert (lit ''Task added successfully!'') (lit ''success'')
                          (loadTasks (s\<lparr>taskInput := [], aiPreview_hidden := True\<rparr>)))
               else Inl (orElse (d_error addData) (lit ''Failed to add task''))))"

definition addTask_add_resume :: "'n outcome \<Rightarrow> app \<Rightarrow> app" where
  "addTask_add_resume r s =
     (case addTask_add_try r s of
        Inl e \<Rightarrow> addTask_catch e s
      | Inr s' \<Rightarrow> showLoading False s')"

subsection \<open>\<^verbatim>\<open>toggleTask\<close> and \<^verbatim>\<open>deleteTask\<close>\<close>

definition toggleTask :: "int \<Rightarrow> app \<Rightarrow> app" where
  "toggleTask taskId s = fetch (POST_toggle taskId) ToggleTask_await s"

definition toggleTask_try :: "'n outcome \<Rightarrow> app \<Rightarrow> jsstring + app" where
  "toggleTask_try r s =
     (case json r of
        Inl e \<Rightarrow> Inl e
      | Inr b \<Rightarrow>
          (case properties ''success'' b of
             Inl e \<Rightarrow> Inl e
           | Inr d \<Rightarrow>
               if d_success d then Inr (loadTasks s)
               else Inl (orElse (d_error d) (lit ''Failed to toggle task''))))"

definition toggleTask_resume :: "'n outcome \<Rightarrow> app \<Rightarrow> app" where
  "toggleTask_resume r s =
     (case toggleTask_try r s of
        Inl e \<Rightarrow> showAlert (lit ''Error updating task'') (lit ''danger'') s
      | Inr s' \<Rightarrow> s')"

definition deleteTask :: "int \<Rightarrow> app \<Rightarrow> app" where
  "deleteTask taskId s = fetch (DELETE_task taskId) DeleteTask_await s"

definition deleteTask_try :: "'n outcome \<Rightarrow> app \<Rightarrow> jsstring + app" where
  "deleteTask_try r s =
     (case json r of
        Inl e \<Rightarrow> Inl e
      | Inr b \<Rightarrow>
          (case properties ''success'' b of
             Inl e \<Rightarrow> Inl e
           | Inr d \<Rightarrow>
               if d_success d
               then Inr (showAlert (lit ''Task deleted successfully!'') (lit ''success'') (loadTasks s))
               else Inl (orElse (d_error d) (lit ''Failed to delete task''))))"

definition deleteTask_resume :: "'n outcome \<Rightarrow> app \<Rightarrow> app" where
  "deleteTask_resume r s =
     (case deleteTask_try r s of
        Inl e \<Rightarrow> showAlert (lit ''Error deleting task'') (lit ''danger'') s
      | Inr s' \<Rightarrow> s')"

subsection \<open>Events\<close>

text \<open>
  The handlers that \<^verbatim>\<open>initializeEventListeners\<close> and \<^verbatim>\<open>addTaskEventListeners\<close> attach,
  and the settling of a request. \<open>Input text\<close> is an edit that leaves \<open>text\<close> in the
  input; \<open>DeleteClick taskId ok\<close> carries the answer to \<^verbatim>\<open>confirm\<close>.
\<close>

datatype 'n event =
    Input jsstring
  | ExampleClick jsstring
  | Submit
  | ToggleClick int
  | DeleteClick int bool
  | Settle nat "'n outcome"

definition resume :: "'n numops \<Rightarrow> await \<Rightarrow> 'n outcome \<Rightarrow> app \<Rightarrow> app" where
  "resume ops a r s =
     (case a of
        ShowAIPreview_await \<Rightarrow> showAIPreview_resume ops r s
      | AddTask_parse text \<Rightarrow> addTask_parse_resume text r s
      | AddTask_add \<Rightarrow> addTask_add_resume r s
      | LoadTasks_await \<Rightarrow> loadTasks_resume r s
      | ToggleTask_await \<Rightarrow> toggleTask_resume r s
      | DeleteTask_await \<Rightarrow> deleteTask_resume r s)"

definition step :: "'n numops \<Rightarrow> 'n event \<Rightarrow> app \<Rightarrow> app" where
  "step ops e s =
     (case e of
        Input text \<Rightarrow> showAIPreview text (s\<lparr>taskInput := text\<rparr>)
      | ExampleClick text \<Rightarrow> showAIPreview text (s\<lparr>taskInput := text\<rparr>)
      | Submit \<Rightarrow> addTask s
      | ToggleClick taskId \<Rightarrow> toggleTask taskId s
      | DeleteClick taskId ok \<Rightarrow> if ok then deleteTask taskId s else s
      | Settle k r \<Rightarrow>
          (case map_of (awaiting s) k of
             None \<Rightarrow> s
           | Some a \<Rightarrow> resume ops a r (s\<lparr>awaiting := filter (\<lambda>(j, _). j \<noteq> k) (awaiting s)\<rparr>)))"

definition run :: "'n numops \<Rightarrow> 'n event list \<Rightarrow> app \<Rightarrow> app" where
  "run ops es s = foldl (\<lambda>s e. step ops e s) s es"

text \<open>The constructor, on the page as the document delivers it.\<close>

definition AITodoApp :: "app \<Rightarrow> app" where
  "AITodoApp page = loadTasks (page\<lparr>tasks := []\<rparr>)"

subsection \<open>Observations\<close>

text \<open>The bodies sent to the create operation, oldest first.\<close>

fun created :: "request \<Rightarrow> create_body option" where
  "created (POST_tasks b) = Some b"
| "created _ = None"

definition creates :: "app \<Rightarrow> create_body list" where
  "creates s = List.map_filter created (map snd (requests s))"

text \<open>The task list the client holds and everything \<^verbatim>\<open>renderTasks\<close> and \<^verbatim>\<open>updateStats\<close> write.\<close>

definition rendered :: "app \<Rightarrow> task list \<times> jsstring \<times> es_loc \<times> jsstring \<times> int \<times> int \<times> int \<times> int" where
  "rendered s =
     (tasks s, tasksContainer s, emptyState s, emptyState_display s,
      taskCount s, totalTasks s, completedTasks s, pendingTasks s)"

text \<open>A response reports success when it has a body other than \<^verbatim>\<open>null\<close> with a truthy \<^verbatim>\<open>success\<close>.\<close>

definition reports_success :: "'n outcome \<Rightarrow> bool" where
  "reports_success r = (case r of Body (JObject d) \<Rightarrow> d_success d | _ \<Rightarrow> False)"

text \<open>
  A page before the constructor runs: nothing typed, preview and loading indicator
  hidden, the empty-state element inside the container, no request issued.
\<close>

definition emptyPage :: app where
  "emptyPage =
     \<lparr>tasks = [], taskInput = [], aiPreview_hidden = True, aiPreviewText = [],
      loadingIndicator_hidden = True, tasksContainer = [], emptyState = InContainer,
      emptyState_display = [], taskCount = 0, totalTasks = 0, completedTasks = 0,
      pendingTasks = 0, alerts = [], requests = [], awaiting = [], next_id = 0\<rparr>"

text \<open>Number operations for responses that carry no confidence.\<close>

definition no_confidence :: "unit numops" where
  "no_confidence = \<lparr>isTruthy = (\<lambda>_. False), roundPercent = (\<lambda>_. [])\<rparr>"

text \<open>
  Example responses: an interpretation with a title only, an answer with \<^verbatim>\<open>success\<close> and
  \<^verbatim>\<open>error\<close>, a successful interpretation, and a task list.
\<close>

definition titled :: "jsstring \<Rightarrow> unit parsed" where
  "titled t = \<lparr>p_title = t, p_date = None, p_time = None, p_confidence = None\<rparr>"

definition reply :: "bool \<Rightarrow> jsstring option \<Rightarrow> unit outcome" where
  "reply b e = Body (JObject \<lparr>d_success = b, d_error = e, d_parsed = None, d_tasks = None\<rparr>)"

definition interpreted :: "unit parsed \<Rightarrow> unit outcome" where
  "interpreted p =
     Body (JObject \<lparr>d_success = True, d_error = None, d_parsed = Some p, d_tasks = None\<rparr>)"

definition listing :: "task list \<Rightarrow> unit outcome" where
  "listing ts =
     Body (JObject \<lparr>d_success = False, d_error = None, d_parsed = None, d_tasks = Some ts\<rparr>)"

section \<open>Properties\<close>

subsection \<open>Auxiliary facts\<close>

lemmas method_defs =
  fetch_def showLoading_def showAlert_def loadTasks_def loadTasks_try_def loadTasks_resume_def
  showAIPreview_def showAIPreview_try_def showAIPreview_resume_def
  addTask_def addTask_catch_def addTask_parse_try_def addTask_parse_resume_def
  addTask_add_try_def addTask_add_resume_def
  toggleTask_def toggleTask_try_def toggleTask_resume_def
  deleteTask_def deleteTask_try_def deleteTask_resume_def
  json_def properties_def

lemmas example_defs = titled_def reply_def interpreted_def listing_def emptyPage_def
  no_confidence_def

lemmas eval_defs = run_def step_def resume_def method_defs creates_def List.map_filter_def
  Let_def trim_def isWhiteSpace_def lit_def reports_success_def orElse_def typeErrorMessage_def

lemmas resume_splits = outcome.splits body.splits option.splits if_splits

lemma dropWhile_all: "(\<forall>x\<in>set (dropWhile P xs). P x) \<longleftrightarrow> (\<forall>x\<in>set xs. P x)"
  by (induction xs) auto

lemma trim_all_ws: "trim t = [] \<longleftrightarrow> (\<forall>c\<in>set t. isWhiteSpace c)"
proof -
  have "trim t = [] \<longleftrightarrow> (\<forall>x\<in>set (rev (dropWhile isWhiteSpace t)). isWhiteSpace x)"
    unfolding trim_def by (simp add: dropWhile_eq_Nil_conv)
  also have "\<dots> \<longleftrightarrow> (\<forall>c\<in>set t. isWhiteSpace c)"
    by (simp add: dropWhile_all)
  finally show ?thesis .
qed

lemma trim_decomp:
  "\<exists>l r. t = l @ trim t @ r \<and> (\<forall>c\<in>set l. isWhiteSpace c) \<and> (\<forall>c\<in>set r. isWhiteSpace c)"
proof -
  let ?u = "dropWhile isWhiteSpace t"
  have 1: "t = takeWhile isWhiteSpace t @ ?u" by simp
  have "?u = rev (dropWhile isWhiteSpace (rev ?u)) @ rev (takeWhile isWhiteSpace (rev ?u))"
    by (metis takeWhile_dropWhile_id rev_append rev_rev_ident)
  then have 3: "?u = trim t @ rev (takeWhile isWhiteSpace (rev ?u))" by (simp add: trim_def)
  have "t = takeWhile isWhiteSpace t @ trim t @ rev (takeWhile isWhiteSpace (rev ?u))"
    using 1 3 by metis
  moreover have "\<forall>c\<in>set (takeWhile isWhiteSpace t). isWhiteSpace c"
    by (auto dest: set_takeWhileD)
  moreover have "\<forall>c\<in>set (rev (takeWhile isWhiteSpace (rev ?u))). isWhiteSpace c"
    by (auto dest: set_takeWhileD)
  ultimately show ?thesis by blast
qed

lemma trim_ends:
  assumes "trim t \<noteq> []"
  shows "\<not> isWhiteSpace (hd (trim t)) \<and> \<not> isWhiteSpace (last (trim t))"
proof -
  let ?u = "dropWhile isWhiteSpace t"
  let ?v = "dropWhile isWhiteSpace (rev ?u)"
  have v: "?v \<noteq> []" using assms by (simp add: trim_def)
  then have hv: "\<not> isWhiteSpace (hd ?v)" by (rule hd_dropWhile)
  have "last (trim t) = hd ?v" using v by (simp add: trim_def last_rev)
  then have L: "\<not> isWhiteSpace (last (trim t))" using hv by simp
  have u: "?u \<noteq> []"
  proof
    assume "?u = []"
    then have "?v = []" by (simp only: rev.simps dropWhile.simps)
    with v show False by simp
  qed
  then have hu: "\<not> isWhiteSpace (hd ?u)" by (rule hd_dropWhile)
  have "?u = rev ?v @ rev (takeWhile isWhiteSpace (rev ?u))"
    by (metis takeWhile_dropWhile_id rev_append rev_rev_ident)
  then have "hd ?u = hd (rev ?v)" using v by (metis hd_append2 rev_is_Nil_conv)
  then have "\<not> isWhiteSpace (hd (trim t))" using hu by (simp add: trim_def)
  with L show ?thesis by simp
qed

lemma trim_id:
  assumes "t \<noteq> []" "\<not> isWhiteSpace (hd t)" "\<not> isWhiteSpace (last t)"
  shows "trim t = t"
proof -
  have 1: "dropWhile isWhiteSpace t = t" using assms by (cases t) auto
  have "rev t \<noteq> []" "\<not> isWhiteSpace (hd (rev t))" using assms by (auto simp: hd_rev)
  then have 2: "dropWhile isWhiteSpace (rev t) = rev t" by (cases "rev t") auto
  show ?thesis by (simp add: trim_def 1 2)
qed

lemma renderTasks_frame:
  "awaiting (renderTasks s) = awaiting s" "requests (renderTasks s) = requests s"
  "alerts (renderTasks s) = alerts s" "next_id (renderTasks s) = next_id s"
  "loadingIndicator_hidden (renderTasks s) = loadingIndicator_hidden s"
  "tasks (renderTasks s) = tasks s"
  by (simp_all add: renderTasks_def Let_def)

lemma updateStats_frame:
  "awaiting (updateStats s) = awaiting s" "requests (updateStats s) = requests s"
  "alerts (updateStats s) = alerts s" "next_id (updateStats s) = next_id s"
  "loadingIndicator_hidden (updateStats s) = loadingIndicator_hidden s"
  "tasks (updateStats s) = tasks s"
  by (simp_all add: updateStats_def Let_def)

text \<open>A method that is resumed only adds to the methods that wait.\<close>

lemma resume_awaiting: "\<exists>ext. awaiting (resume ops a r s) = awaiting s @ ext"
  by (cases a)
     (auto simp: resume_def method_defs renderTasks_frame updateStats_frame
           split: outcome.splits body.splits option.splits sum.splits if_splits)

lemma map_of_filter_other:
  "k \<noteq> j \<Longrightarrow> map_of (filter (\<lambda>(i, _). i \<noteq> j) xs) k = map_of xs k"
  by (induction xs) auto

text \<open>A method that waits keeps waiting until its own request settles.\<close>

lemma step_keeps_await:
  assumes "map_of (awaiting s) k = Some a" and "\<forall>r. e \<noteq> Settle k r"
  shows "map_of (awaiting (step ops e s)) k = Some a"
proof (cases e)
  case (Settle j r)
  with assms have kj: "k \<noteq> j" by auto
  show ?thesis
  proof (cases "map_of (awaiting s) j")
    case None
    with Settle assms show ?thesis by (simp add: step_def)
  next
    case (Some b)
    let ?s = "s\<lparr>awaiting := filter (\<lambda>(i, _). i \<noteq> j) (awaiting s)\<rparr>"
    obtain ext where "awaiting (resume ops b r ?s) = awaiting ?s @ ext"
      using resume_awaiting by blast
    moreover have "map_of (awaiting ?s) k = Some a"
      using assms kj by (simp add: map_of_filter_other)
    ultimately show ?thesis using Settle Some by (simp add: step_def)
  qed
qed (use assms in \<open>auto simp: step_def method_defs Let_def\<close>)

lemma run_keeps_await:
  "map_of (awaiting s) k = Some a \<Longrightarrow> \<forall>e\<in>set es. \<forall>r. e \<noteq> Settle k r \<Longrightarrow>
   map_of (awaiting (run ops es s)) k = Some a"
proof (induction es arbitrary: s)
  case Nil
  then show ?case by (simp add: run_def)
next
  case (Cons e es)
  have "map_of (awaiting (step ops e s)) k = Some a"
    using Cons.prems by (intro step_keeps_await) auto
  then have "map_of (awaiting (run ops es (step ops e s))) k = Some a"
    using Cons.prems by (intro Cons.IH) auto
  then show ?case by (simp add: run_def)
qed

lemma run_Cons: "run ops (e # es) s = run ops es (step ops e s)"
  by (simp add: run_def)

text \<open>
  The numbers under which methods wait lie below the next number to be given out. This
  holds after the constructor, on a page where nothing waits, and every step keeps it, so
  it holds in every state the program reaches.
\<close>

lemma resume_fresh_ids:
  assumes "\<forall>j\<in>fst ` set (awaiting s). j < next_id s"
  shows "\<forall>j\<in>fst ` set (awaiting (resume ops a r s)). j < next_id (resume ops a r s)"
  using assms
  by (cases a)
     (auto simp: resume_def method_defs renderTasks_frame updateStats_frame less_Suc_eq
           split: resume_splits sum.splits)

lemma step_fresh_ids:
  assumes "\<forall>j\<in>fst ` set (awaiting s). j < next_id s"
  shows "\<forall>j\<in>fst ` set (awaiting (step ops e s)). j < next_id (step ops e s)"
proof (cases e)
  case (Settle k r)
  show ?thesis
  proof (cases "map_of (awaiting s) k")
    case None
    with Settle assms show ?thesis by (simp add: step_def)
  next
    case (Some a)
    let ?s = "s\<lparr>awaiting := filter (\<lambda>(j, _). j \<noteq> k) (awaiting s)\<rparr>"
    have "\<forall>j\<in>fst ` set (awaiting ?s). j < next_id ?s" using assms by auto
    then show ?thesis using Settle Some resume_fresh_ids [of ?s ops a r] by (simp add: step_def)
  qed
qed (use assms in \<open>auto simp: step_def method_defs Let_def less_Suc_eq\<close>)

lemma run_fresh_ids:
  "\<forall>j\<in>fst ` set (awaiting s). j < next_id s \<Longrightarrow>
   \<forall>j\<in>fst ` set (awaiting (run ops es s)). j < next_id (run ops es s)"
proof (induction es arbitrary: s)
  case Nil
  then show ?case by (simp add: run_def)
next
  case (Cons e es)
  from Cons.IH [OF step_fresh_ids [OF Cons.prems]] show ?case by (simp add: run_def)
qed

lemma AITodoApp_fresh_ids:
  "awaiting page = [] \<Longrightarrow>
   \<forall>j\<in>fst ` set (awaiting (AITodoApp page)). j < next_id (AITodoApp page)"
  by (simp add: AITodoApp_def loadTasks_def fetch_def)

text \<open>What settling a request does to a waiting \<^verbatim>\<open>showAIPreview\<close>.\<close>

lemma showAIPreview_settle:
  assumes "map_of (awaiting s) k = Some ShowAIPreview_await"
  shows "(d_success d \<and> d_parsed d = Some p \<longrightarrow>
            \<not> aiPreview_hidden (step ops (Settle k (Body (JObject d))) s) \<and>
            aiPreviewText (step ops (Settle k (Body (JObject d))) s) = previewHTML ops p) \<and>
         ((\<forall>d p. r = Body (JObject d) \<and> d_success d \<longrightarrow> d_parsed d \<noteq> Some p) \<longrightarrow>
            aiPreview_hidden (step ops (Settle k r) s) \<and>
            aiPreviewText (step ops (Settle k r) s) = aiPreviewText s \<and>
            alerts (step ops (Settle k r) s) = alerts s)"
  using assms
  by (auto simp: step_def resume_def method_defs split: resume_splits)

lemma map_of_awaiting_new:
  "\<forall>j\<in>fst ` set xs. j < n \<Longrightarrow> map_of (xs @ [(n, a), (Suc n, b)]) n = Some a \<and>
     map_of (xs @ [(n, a), (Suc n, b)]) (Suc n) = Some b"
  by (induction xs) auto





lemma raw1_start: "\<exists>mid post. \<forall>y. y \<noteq> [] \<longrightarrow> y @ c = mid @ y @ post"
  by (metis append_Nil)

lemma raw1_prepend:
  "\<exists>mid post. \<forall>y. y \<noteq> [] \<longrightarrow> G y = mid @ y @ post \<Longrightarrow>
   \<exists>mid post. \<forall>y. y \<noteq> [] \<longrightarrow> c @ G y = mid @ y @ post"
  by (metis append_assoc)

lemma raw2_start:
  "\<exists>mid post. \<forall>y. y \<noteq> [] \<longrightarrow> G y = mid @ y @ post \<Longrightarrow>
   \<exists>pre mid post. \<forall>x y. x \<noteq> [] \<and> y \<noteq> [] \<longrightarrow> x @ G y = pre @ x @ mid @ y @ post"
  by (metis append_Nil)

lemma raw2_prepend:
  "\<exists>pre mid post. \<forall>x y. x \<noteq> [] \<and> y \<noteq> [] \<longrightarrow> F x y = pre @ x @ mid @ y @ post \<Longrightarrow>
   \<exists>pre mid post. \<forall>x y. x \<noteq> [] \<and> y \<noteq> [] \<longrightarrow> c @ F x y = pre @ x @ mid @ y @ post"
  by (metis append_assoc)





subsection \<open>Create with nothing to submit\<close>

text \<open>
  Claim C7. When the input is empty or holds only whitespace, so that its trimmed value is
  empty, submitting issues no request (neither to the interpretation service nor to the
  persistence service), leaves every waiting method, the task list and its rendering as
  they were, and shows the notice ``Please enter a task'' of type warning: the state
  changes in that notice and nothing else.
\<close>

theorem addTask_empty_input:
  assumes "\<forall>c\<in>set (taskInput s). isWhiteSpace c"
  shows "step ops Submit s =
           s\<lparr>alerts := alerts s @ [(lit ''Please enter a task'', lit ''warning'')]\<rparr> \<and>
         requests (step ops Submit s) = requests s \<and>
         awaiting (step ops Submit s) = awaiting s \<and>
         tasks (step ops Submit s) = tasks s \<and>
         rendered (step ops Submit s) = rendered s"
proof -
  have "trim (taskInput s) = []" using assms by (simp add: trim_all_ws)
  then have "step ops Submit s =
      s\<lparr>alerts := alerts s @ [(lit ''Please enter a task'', lit ''warning'')]\<rparr>"
    by (simp add: step_def addTask_def showAlert_def)
  then show ?thesis by (simp add: rendered_def)
qed

theorem addTask_empty_input_witness:
  "list_all isWhiteSpace (taskInput (emptyPage\<lparr>taskInput := lit ''  ''\<rparr>)) \<and>
   requests (step no_confidence Submit (emptyPage\<lparr>taskInput := lit ''  ''\<rparr>)) = [] \<and>
   alerts (step no_confidence Submit (emptyPage\<lparr>taskInput := lit ''  ''\<rparr>)) =
     [(lit ''Please enter a task'', lit ''warning'')]"
proof -
  have h: "\<forall>c\<in>set (taskInput (emptyPage\<lparr>taskInput := lit ''  ''\<rparr>)). isWhiteSpace c"
    by (simp add: lit_def isWhiteSpace_def)
  show ?thesis
    using h addTask_empty_input [OF h, of no_confidence]
    by (simp add: emptyPage_def list_all_iff)
qed

subsection \<open>The text that Create sends\<close>

text \<open>
  Claim C3, as amended. The \<^verbatim>\<open>original_text\<close> that Create sends to the create operation is
  the input as it stood when the form was submitted with the whitespace and line
  terminators at its two ends removed (\<^verbatim>\<open>taskInput.value.trim()\<close>), whatever happens
  between the submission and the answer of the interpretation service; the characters
  between the two ends are sent as they are. It is the input itself exactly when the
  input neither starts nor ends with such a character.
\<close>
theorem addTask_sends_trimmed_input:
  assumes fresh: "next_id s \<notin> fst ` set (awaiting s)"
      and valid: "trim (taskInput s) \<noteq> []"
      and others: "\<forall>e\<in>set es. \<forall>r. e \<noteq> Settle (next_id s) r"
      and ok: "d_success d" "d_parsed d = Some p"
  shows "creates (run ops (Submit # es @ [Settle (next_id s) (Body (JObject d))]) s) =
           creates (run ops (Submit # es) s) @
           [\<lparr>b_title = p_title p, b_date = p_date p, b_time = p_time p,
             b_original_text = trim (taskInput s)\<rparr>] \<and>
         (\<exists>l r. taskInput s = l @ trim (taskInput s) @ r \<and>
                list_all isWhiteSpace l \<and> list_all isWhiteSpace r) \<and>
         (trim (taskInput s) = taskInput s \<longleftrightarrow>
            \<not> isWhiteSpace (hd (taskInput s)) \<and> \<not> isWhiteSpace (last (taskInput s)))"
proof -
  let ?k = "next_id s" and ?t = "trim (taskInput s)"
  let ?s1 = "run ops (Submit # es) s"
  have "map_of (awaiting (step ops Submit s)) ?k = Some (AddTask_parse ?t)"
    using fresh valid
    by (simp add: step_def addTask_def Let_def fetch_def showLoading_def map_add_def
          map_of_eq_None_iff [THEN iffD2])
  then have aw: "map_of (awaiting ?s1) ?k = Some (AddTask_parse ?t)"
    using others by (simp add: run_Cons run_keeps_await)
  have "run ops (Submit # es @ [Settle ?k (Body (JObject d))]) s =
          step ops (Settle ?k (Body (JObject d))) ?s1"
    by (simp add: run_def)
  then have 1: "creates (run ops (Submit # es @ [Settle ?k (Body (JObject d))]) s) =
      creates ?s1 @ [\<lparr>b_title = p_title p, b_date = p_date p, b_time = p_time p,
                       b_original_text = ?t\<rparr>]"
    using aw ok
    by (simp add: step_def resume_def method_defs creates_def List.map_filter_def)
  have 2: "\<exists>l r. taskInput s = l @ ?t @ r \<and> list_all isWhiteSpace l \<and> list_all isWhiteSpace r"
    using trim_decomp [of "taskInput s"] by (simp add: list_all_iff)
  have ne: "taskInput s \<noteq> []" using valid by (auto simp: trim_def)
  have 3: "?t = taskInput s \<longleftrightarrow>
      \<not> isWhiteSpace (hd (taskInput s)) \<and> \<not> isWhiteSpace (last (taskInput s))"
  proof
    assume "?t = taskInput s"
    then show "\<not> isWhiteSpace (hd (taskInput s)) \<and> \<not> isWhiteSpace (last (taskInput s))"
      using trim_ends [OF valid] by simp
  next
    assume "\<not> isWhiteSpace (hd (taskInput s)) \<and> \<not> isWhiteSpace (last (taskInput s))"
    then show "?t = taskInput s" using ne by (simp add: trim_id)
  qed
  from 1 2 3 show ?thesis by blast
qed

text \<open>The theorem at the input \<^verbatim>\<open>" ab"\<close>, with an edit of the input while Create waits.\<close>

theorem addTask_sends_trimmed_input_witness:
  "trim (taskInput (emptyPage\<lparr>taskInput := lit '' ab''\<rparr>)) = lit ''ab'' \<and>
   creates (run no_confidence
      [Submit, Input (lit ''xyz''),
       Settle 0 (Body (JObject \<lparr>d_success = True, d_error = None,
          d_parsed = Some \<lparr>p_title = lit ''ab'', p_date = None, p_time = None,
                            p_confidence = None\<rparr>,
          d_tasks = None\<rparr>))]
      (emptyPage\<lparr>taskInput := lit '' ab''\<rparr>)) =
     [\<lparr>b_title = lit ''ab'', b_date = None, b_time = None, b_original_text = lit ''ab''\<rparr>]"
proof -
  let ?s = "emptyPage\<lparr>taskInput := lit '' ab''\<rparr>"
  let ?d = "\<lparr>d_success = True, d_error = None,
          d_parsed = Some \<lparr>p_title = lit ''ab'', p_date = None, p_time = None,
                            p_confidence = (None :: unit option)\<rparr>,
          d_tasks = None\<rparr>"
  have t: "trim (taskInput ?s) = lit ''ab''"
    by (simp add: emptyPage_def trim_def isWhiteSpace_def lit_def)
  have n: "next_id ?s = 0" by (simp add: emptyPage_def)
  have 1: "next_id ?s \<notin> fst ` set (awaiting ?s)" by (simp add: emptyPage_def)
  have 2: "trim (taskInput ?s) \<noteq> []"
    by (simp add: emptyPage_def trim_def isWhiteSpace_def lit_def)
  have 3: "\<forall>e\<in>set [Input (lit ''xyz'')]. \<forall>r. e \<noteq> (Settle (next_id ?s) r :: unit event)" by simp
  have 4: "d_success ?d" by simp
  have 5: "d_parsed ?d = Some \<lparr>p_title = lit ''ab'', p_date = None, p_time = None,
                            p_confidence = None\<rparr>" by simp
  have 6: "creates (run no_confidence [Submit, Input (lit ''xyz'')] ?s) = []"
    by (simp add: run_def step_def method_defs creates_def List.map_filter_def emptyPage_def
          Let_def trim_def isWhiteSpace_def lit_def)
  show ?thesis
    using addTask_sends_trimmed_input [OF 1 2 3 4 5, of no_confidence] t n 6
    by simp
qed

text \<open>
  The claim as first stated, that \<^verbatim>\<open>original_text\<close> is the input verbatim, fails at the
  input \<^verbatim>\<open>" ab"\<close>: what is sent is \<^verbatim>\<open>"ab"\<close>.
\<close>

theorem original_text_counterexample:
  "map b_original_text
     (creates (run no_confidence
        [Submit,
         Settle 0 (Body (JObject \<lparr>d_success = True, d_error = None,
            d_parsed = Some \<lparr>p_title = lit ''ab'', p_date = None, p_time = None, p_confidence = None\<rparr>,
            d_tasks = None\<rparr>))]
        (emptyPage\<lparr>taskInput := lit '' ab''\<rparr>))) = [lit ''ab''] \<and>
   lit ''ab'' \<noteq> taskInput (emptyPage\<lparr>taskInput := lit '' ab''\<rparr>)"
  by (simp add: run_def step_def resume_def method_defs creates_def List.map_filter_def
        emptyPage_def trim_def isWhiteSpace_def lit_def Let_def)

subsection \<open>The calls that Create makes\<close>



subsection \<open>The loading indicator\<close>

text \<open>
  Claim C2, as amended. Of the three operations only Create touches the loading indicator.
  A Create whose text is valid shows the indicator in the step that issues its first
  request; going from the interpretation step to the persistence step it leaves the
  indicator as it is; and on every path on which it ends (the interpretation step fails
  or gives no interpretation, the persistence step answers, with success or failure) it
  hides the indicator, so that a Create never leaves it shown. Toggle and Delete neither
  show nor hide the indicator, when they start or when their request settles.
\<close>

theorem loading_indicator:
  "(trim (taskInput s) \<noteq> [] \<longrightarrow>
      \<not> loadingIndicator_hidden (step ops Submit s) \<and>
      requests (step ops Submit s) = requests s @ [(next_id s, POST_parse_task (trim (taskInput s)))])
   \<and>
   (map_of (awaiting s) k = Some (AddTask_parse text) \<and> d_success d \<and> d_parsed d = Some p \<longrightarrow>
      loadingIndicator_hidden (step ops (Settle k (Body (JObject d))) s) = loadingIndicator_hidden s)
   \<and>
   (map_of (awaiting s) k = Some (AddTask_parse text) \<and> d_success d \<and> d_parsed d = None \<longrightarrow>
      loadingIndicator_hidden (step ops (Settle k (Body (JObject d))) s))
   \<and>
   (map_of (awaiting s) k = Some (AddTask_parse text) \<and> \<not> reports_success r \<longrightarrow>
      loadingIndicator_hidden (step ops (Settle k r) s))
   \<and>
   (map_of (awaiting s) k = Some AddTask_add \<longrightarrow>
      loadingIndicator_hidden (step ops (Settle k r) s))
   \<and>
   loadingIndicator_hidden (step ops (ToggleClick taskId) s) = loadingIndicator_hidden s
   \<and>
   loadingIndicator_hidden (step ops (DeleteClick taskId ok) s) = loadingIndicator_hidden s
   \<and>
   (map_of (awaiting s) k = Some ToggleTask_await \<or> map_of (awaiting s) k = Some DeleteTask_await \<longrightarrow>
      loadingIndicator_hidden (step ops (Settle k r) s) = loadingIndicator_hidden s)"
  by (intro conjI impI; (elim conjE)?)
     (auto simp: step_def resume_def method_defs reports_success_def Let_def
           split: resume_splits)

text \<open>
  The theorem on the input \<^verbatim>\<open>"buy milk"\<close>, through each way a Create can go, and on a
  Toggle.
\<close>

theorem loading_indicator_witness:
  "\<not> loadingIndicator_hidden
       (run no_confidence [Submit] (emptyPage\<lparr>taskInput := lit ''buy milk''\<rparr>)) \<and>
   \<not> loadingIndicator_hidden
       (run no_confidence [Submit, Settle 0 (interpreted (titled (lit ''Buy milk'')))]
          (emptyPage\<lparr>taskInput := lit ''buy milk''\<rparr>)) \<and>
   loadingIndicator_hidden
       (run no_confidence [Submit, Settle 0 (reply True None)]
          (emptyPage\<lparr>taskInput := lit ''buy milk''\<rparr>)) \<and>
   loadingIndicator_hidden
       (run no_confidence [Submit, Settle 0 (BodyMalformed (lit ''Unexpected token''))]
          (emptyPage\<lparr>taskInput := lit ''buy milk''\<rparr>)) \<and>
   loadingIndicator_hidden
       (run no_confidence
          [Submit, Settle 0 (interpreted (titled (lit ''Buy milk''))), Settle 1 (reply True None)]
          (emptyPage\<lparr>taskInput := lit ''buy milk''\<rparr>)) \<and>
   loadingIndicator_hidden
       (run no_confidence [ToggleClick 7, Settle 0 (reply True None)] emptyPage)"
proof -
  define sA where "sA = emptyPage\<lparr>taskInput := lit ''buy milk''\<rparr>"
  define sB where "sB = step no_confidence Submit sA"
  define d :: "unit data" where
    "d = \<lparr>d_success = True, d_error = None, d_parsed = Some (titled (lit ''Buy milk'')),
          d_tasks = None\<rparr>"
  define d' :: "unit data" where
    "d' = \<lparr>d_success = True, d_error = None, d_parsed = None, d_tasks = None\<rparr>"
  define sC where "sC = step no_confidence (Settle 0 (Body (JObject d))) sB"
  define sT where "sT = step no_confidence (ToggleClick 7) emptyPage"
  note T = loading_indicator [where ops = no_confidence]
  have sA: "trim (taskInput sA) \<noteq> []"
    by (simp add: sA_def example_defs eval_defs)
  have sB: "map_of (awaiting sB) 0 = Some (AddTask_parse (lit ''buy milk''))"
    by (simp add: sB_def sA_def example_defs eval_defs)
  have sC: "map_of (awaiting sC) 1 = Some AddTask_add"
    by (simp add: sC_def sB_def sA_def d_def example_defs eval_defs)
  have sT: "map_of (awaiting sT) 0 = Some ToggleTask_await" "loadingIndicator_hidden emptyPage"
    by (simp_all add: sT_def example_defs eval_defs)
  have d: "d_success d" "d_parsed d = Some (titled (lit ''Buy milk''))"
    "d_success d'" "d_parsed d' = None"
    by (simp_all add: d_def d'_def)
  have r: "\<not> reports_success (BodyMalformed (lit ''Unexpected token'') :: unit outcome)"
    by (simp add: reports_success_def)
  have P1: "\<not> loadingIndicator_hidden sB"
    using T [where s = sA, THEN conjunct1] sA by (simp add: sB_def)
  have P2: "loadingIndicator_hidden sC = loadingIndicator_hidden sB"
    using T [where s = sB and k = 0 and d = d, THEN conjunct2, THEN conjunct1] sB d by (simp add: sC_def)
  have P3: "loadingIndicator_hidden (step no_confidence (Settle 0 (Body (JObject d'))) sB)"
    using T [where s = sB and k = 0 and d = d', THEN conjunct2, THEN conjunct2, THEN conjunct1] sB d by simp
  have P4: "loadingIndicator_hidden
      (step no_confidence (Settle 0 (BodyMalformed (lit ''Unexpected token''))) sB)"
    using T [where s = sB and k = 0 and r = "BodyMalformed (lit ''Unexpected token'')",
             THEN conjunct2, THEN conjunct2, THEN conjunct2, THEN conjunct1] sB r by simp
  have P5: "loadingIndicator_hidden (step no_confidence (Settle 1 (reply True None)) sC)"
    using T [where s = sC and k = 1 and r = "reply True None",
             THEN conjunct2, THEN conjunct2, THEN conjunct2, THEN conjunct2, THEN conjunct1] sC by simp
  have P6: "loadingIndicator_hidden sT = loadingIndicator_hidden emptyPage"
    using T [where s = emptyPage and taskId = 7, THEN conjunct2, THEN conjunct2, THEN conjunct2, THEN conjunct2, THEN conjunct2, THEN conjunct1]
    by (simp add: sT_def)
  have P8: "loadingIndicator_hidden (step no_confidence (Settle 0 (reply True None)) sT) =
      loadingIndicator_hidden sT"
    using T [where s = sT and k = 0 and r = "reply True None",
             THEN conjunct2, THEN conjunct2, THEN conjunct2, THEN conjunct2, THEN conjunct2, THEN conjunct2, THEN conjunct2] sT by simp
  show ?thesis
    using P1 P2 P3 P4 P5 P6 P8 sT(2)
    by (simp add: run_def sA_def sB_def sC_def sT_def d_def d'_def interpreted_def reply_def)
qed

text \<open>
  The claim as first stated fails for Toggle: after the click the request is under way and
  the indicator is hidden as before.
\<close>

theorem toggle_without_indicator_counterexample:
  "loadingIndicator_hidden (step no_confidence (ToggleClick 1) emptyPage) \<and>
   requests (step no_confidence (ToggleClick 1) emptyPage) = [(0, POST_toggle 1)] \<and>
   awaiting (step no_confidence (ToggleClick 1) emptyPage) = [(0, ToggleTask_await)]"
  by (simp add: example_defs eval_defs)

subsection \<open>Toggle and Delete change nothing by themselves\<close>



subsection \<open>A reload that brings no list\<close>

text \<open>
  Claim C10, as amended. When a reload settles and the fetch has failed, the body is not
  JSON, or the parsed body has no truthy \<^verbatim>\<open>tasks\<close>, \<^verbatim>\<open>loadTasks\<close> leaves the task list, the
  rendered list and the counters as they are and issues no request. The notice ``Error
  loading tasks'' is shown when the fetch has failed, when the body is not JSON, and also
  when the body is \<^verbatim>\<open>null\<close>, of which no property can be read; every other body
  without a truthy \<^verbatim>\<open>tasks\<close> is passed over without a notice.
\<close>

theorem loadTasks_failure_frame:
  assumes "map_of (awaiting s) k = Some LoadTasks_await"
      and "\<forall>d. r = Body (JObject d) \<longrightarrow> d_tasks d = None"
  shows "rendered (step ops (Settle k r) s) = rendered s \<and>
         requests (step ops (Settle k r) s) = requests s \<and>
         alerts (step ops (Settle k r) s) =
           (if \<exists>d. r = Body (JObject d) then alerts s
            else alerts s @ [(lit ''Error loading tasks'', lit ''danger'')])"
  using assms
  by (auto simp: step_def resume_def method_defs rendered_def split: resume_splits)

text \<open>The theorem on the first reload, for a body without \<^verbatim>\<open>tasks\<close> and for a body that is not JSON.\<close>

theorem loadTasks_failure_frame_witness:
  "alerts (run no_confidence [Settle 0 (reply True None)] (AITodoApp emptyPage)) = [] \<and>
   alerts (run no_confidence [Settle 0 (BodyMalformed (lit ''Unexpected token''))]
      (AITodoApp emptyPage)) = [(lit ''Error loading tasks'', lit ''danger'')] \<and>
   rendered (run no_confidence [Settle 0 (BodyMalformed (lit ''Unexpected token''))]
      (AITodoApp emptyPage)) = rendered (AITodoApp emptyPage)"
proof -
  define s0 where "s0 = AITodoApp emptyPage"
  have s0: "map_of (awaiting s0) 0 = Some LoadTasks_await" "alerts s0 = []"
    by (simp_all add: s0_def AITodoApp_def example_defs eval_defs)
  have 1: "\<forall>d. reply True None = Body (JObject d) \<longrightarrow> d_tasks d = None"
    by (simp add: reply_def)
  have 2: "\<forall>d. (BodyMalformed (lit ''Unexpected token'') :: unit outcome) = Body (JObject d) \<longrightarrow>
      d_tasks d = None"
    by simp
  have 3: "\<exists>d. reply True None = Body (JObject d)" by (simp add: reply_def)
  show ?thesis
    using loadTasks_failure_frame [OF s0(1) 1, of no_confidence]
      loadTasks_failure_frame [OF s0(1) 2, of no_confidence] s0(2) 3
    unfolding run_def foldl.simps s0_def [symmetric]
    by simp
qed

text \<open>
  The claim as first stated, that every well-formed response without \<^verbatim>\<open>tasks\<close> is passed
  over silently, fails for the body \<^verbatim>\<open>null\<close>: the notice is shown.
\<close>

theorem loadTasks_null_body_counterexample:
  "alerts (run no_confidence [Settle 0 (Body JNull)] (AITodoApp emptyPage)) =
     [(lit ''Error loading tasks'', lit ''danger'')]"
  by (simp add: AITodoApp_def example_defs eval_defs)

subsection \<open>Counters and the empty list\<close>

text \<open>
  Claim C8. After a reload has brought a list, empty or not, the client holds that list,
  the total shown is the number of its tasks, the completed count is the number of its
  tasks whose \<^verbatim>\<open>completed\<close> is true, and total = completed + pending. For the empty list
  the container shows the empty state and no task: the empty-state element, made visible
  (its display set to \<^verbatim>\<open>block\<close>) and put into the emptied container, or, when the document
  has no such element, the markup of a \<^verbatim>\<open>div\<close> that reads ``No tasks yet. Add your first one
  above.'' For any other list the container holds the markup of its tasks, in order.
\<close>

theorem reload_counters:
  assumes \<open>map_of (awaiting s) k = Some LoadTasks_await\<close> and \<open>d_tasks d = Some ts\<close>
  shows \<open>tasks (step ops (Settle k (Body (JObject d))) s) = ts \<and>
         totalTasks (step ops (Settle k (Body (JObject d))) s) =
           completedTasks (step ops (Settle k (Body (JObject d))) s) +
           pendingTasks (step ops (Settle k (Body (JObject d))) s) \<and>
         totalTasks (step ops (Settle k (Body (JObject d))) s) = int (length ts) \<and>
         taskCount (step ops (Settle k (Body (JObject d))) s) = int (length ts) \<and>
         completedTasks (step ops (Settle k (Body (JObject d))) s) =
           int (length (filter completed ts)) \<and>
         (if ts = []
          then if emptyState s = NoEmptyState
               then tasksContainer (step ops (Settle k (Body (JObject d))) s) =
                      lit ''<div class="text-center py-4 text-muted">No tasks yet. Add your first one above.</div>'' \<and>
                    emptyState (step ops (Settle k (Body (JObject d))) s) = NoEmptyState
               else tasksContainer (step ops (Settle k (Body (JObject d))) s) = [] \<and>
                    emptyState (step ops (Settle k (Body (JObject d))) s) = InContainer \<and>
                    emptyState_display (step ops (Settle k (Body (JObject d))) s) = lit ''block''
          else tasksContainer (step ops (Settle k (Body (JObject d))) s) =
                 concat (map createTaskHTML ts) \<and>
               emptyState (step ops (Settle k (Body (JObject d))) s) \<noteq> InContainer)\<close>
  using assms
  by (auto simp: step_def resume_def method_defs renderTasks_def updateStats_def Let_def)

text \<open>
  The theorem on a list of two tasks, one of them completed, and on the empty list
  arriving at a page that showed a list before, with and without an empty-state element in
  the document.
\<close>

theorem reload_counters_witness:
  \<open>totalTasks (run no_confidence
      [Settle 0 (listing
         [\<lparr>task_id = 1, title = lit ''a'', date = None, time = None, original_text = lit ''a'',
           completed = True\<rparr>,
          \<lparr>task_id = 2, title = lit ''b'', date = None, time = None, original_text = lit ''b'',
           completed = False\<rparr>])] (AITodoApp emptyPage)) = 2 \<and>
   completedTasks (run no_confidence
      [Settle 0 (listing
         [\<lparr>task_id = 1, title = lit ''a'', date = None, time = None, original_text = lit ''a'',
           completed = True\<rparr>,
          \<lparr>task_id = 2, title = lit ''b'', date = None, time = None, original_text = lit ''b'',
           completed = False\<rparr>])] (AITodoApp emptyPage)) = 1 \<and>
   pendingTasks (run no_confidence
      [Settle 0 (listing
         [\<lparr>task_id = 1, title = lit ''a'', date = None, time = None, original_text = lit ''a'',
           completed = True\<rparr>,
          \<lparr>task_id = 2, title = lit ''b'', date = None, time = None, original_text = lit ''b'',
           completed = False\<rparr>])] (AITodoApp emptyPage)) = 1 \<and>
   totalTasks (run no_confidence [Settle 0 (listing [])]
      (AITodoApp (emptyPage\<lparr>tasksContainer := lit ''<p>old</p>'', totalTasks := 5\<rparr>))) = 0 \<and>
   tasksContainer (run no_confidence [Settle 0 (listing [])]
      (AITodoApp (emptyPage\<lparr>tasksContainer := lit ''<p>old</p>'', totalTasks := 5\<rparr>))) = [] \<and>
   emptyState (run no_confidence [Settle 0 (listing [])]
      (AITodoApp (emptyPage\<lparr>tasksContainer := lit ''<p>old</p>'', totalTasks := 5\<rparr>))) =
     InContainer \<and>
   emptyState_display (run no_confidence [Settle 0 (listing [])]
      (AITodoApp (emptyPage\<lparr>tasksContainer := lit ''<p>old</p>'', totalTasks := 5\<rparr>))) =
     lit ''block'' \<and>
   tasksContainer (run no_confidence [Settle 0 (listing [])]
      (AITodoApp (emptyPage\<lparr>tasksContainer := lit ''<p>old</p>'', emptyState := NoEmptyState\<rparr>))) =
     lit ''<div class="text-center py-4 text-muted">No tasks yet. Add your first one above.</div>''\<close>
proof -
  define s0 where "s0 = AITodoApp emptyPage"
  define s1 where
    "s1 = AITodoApp (emptyPage\<lparr>tasksContainer := lit ''<p>old</p>'', totalTasks := 5\<rparr>)"
  define s2 where
    "s2 = AITodoApp (emptyPage\<lparr>tasksContainer := lit ''<p>old</p>'', emptyState := NoEmptyState\<rparr>)"
  define ts where "ts =
         [\<lparr>task_id = 1, title = lit ''a'', date = None, time = None, original_text = lit ''a'',
           completed = True\<rparr>,
          \<lparr>task_id = 2, title = lit ''b'', date = None, time = None, original_text = lit ''b'',
           completed = False\<rparr>]"
  define d :: "task list \<Rightarrow> unit data" where
    "d = (\<lambda>ts. \<lparr>d_success = False, d_error = None, d_parsed = None, d_tasks = Some ts\<rparr>)"
  have s0: "map_of (awaiting s0) 0 = Some LoadTasks_await"
    by (simp add: s0_def AITodoApp_def example_defs eval_defs)
  have s1: "map_of (awaiting s1) 0 = Some LoadTasks_await" "emptyState s1 = InContainer"
    by (simp_all add: s1_def AITodoApp_def example_defs eval_defs)
  have s2: "map_of (awaiting s2) 0 = Some LoadTasks_await" "emptyState s2 = NoEmptyState"
    by (simp_all add: s2_def AITodoApp_def example_defs eval_defs)
  have d: "d_tasks (d ts) = Some ts" "d_tasks (d []) = Some []" by (simp_all add: d_def)
  have l: "int (length ts) = 2" "int (length (filter completed ts)) = 1" "ts \<noteq> []"
    by (simp_all add: ts_def)
  note T = reload_counters [where ops = no_confidence and k = 0]
  show ?thesis
    using T [OF s0 d(1)] T [OF s1(1) d(2)] T [OF s2(1) d(2)] l s1(2) s2(2)
    unfolding run_def foldl.simps listing_def s0_def [symmetric] s1_def [symmetric]
      s2_def [symmetric] ts_def [symmetric] d_def
    by simp
qed

subsection \<open>Preview responses out of order\<close>

text \<open>
  Claim C1, as amended. \<^verbatim>\<open>showAIPreview\<close> applies every response when it arrives, whether
  or not a later request has been issued since: a response that carries an interpretation
  is rendered and shown, and any other hides the preview, leaving its markup and showing
  no notice. So when requests are issued for inputs A and then B and both responses carry
  an interpretation, the preview shown at the end reflects the response that arrived
  last: B's when the responses arrive in the order of the requests, and A's when B's
  response arrives before A's.
\<close>

theorem preview_last_arrival_wins:
  "(map_of (awaiting s') k = Some ShowAIPreview_await \<and> d_success d \<and> d_parsed d = Some p \<longrightarrow>
      \<not> aiPreview_hidden (step ops (Settle k (Body (JObject d))) s') \<and>
      aiPreviewText (step ops (Settle k (Body (JObject d))) s') = previewHTML ops p)
   \<and>
   (map_of (awaiting s') k = Some ShowAIPreview_await \<and>
    (\<forall>d p. r = Body (JObject d) \<and> d_success d \<longrightarrow> d_parsed d \<noteq> Some p) \<longrightarrow>
      aiPreview_hidden (step ops (Settle k r) s') \<and>
      aiPreviewText (step ops (Settle k r) s') = aiPreviewText s' \<and>
      alerts (step ops (Settle k r) s') = alerts s')
   \<and>
   ((\<forall>j\<in>fst ` set (awaiting s). j < next_id s) \<and> 3 \<le> length A \<and> 3 \<le> length B \<and>
    d_success dA \<and> d_parsed dA = Some pA \<and> d_success dB \<and> d_parsed dB = Some pB \<longrightarrow>
      aiPreviewText (run ops [Input A, Input B,
          Settle (Suc (next_id s)) (Body (JObject dB)),
          Settle (next_id s) (Body (JObject dA))] s) = previewHTML ops pA \<and>
      \<not> aiPreview_hidden (run ops [Input A, Input B,
          Settle (Suc (next_id s)) (Body (JObject dB)),
          Settle (next_id s) (Body (JObject dA))] s) \<and>
      aiPreviewText (run ops [Input A, Input B,
          Settle (next_id s) (Body (JObject dA)),
          Settle (Suc (next_id s)) (Body (JObject dB))] s) = previewHTML ops pB \<and>
      \<not> aiPreview_hidden (run ops [Input A, Input B,
          Settle (next_id s) (Body (JObject dA)),
          Settle (Suc (next_id s)) (Body (JObject dB))] s))"
proof (intro conjI impI; (elim conjE)?)
  assume fresh: "\<forall>j\<in>fst ` set (awaiting s). j < next_id s"
    and long: "3 \<le> length A" "3 \<le> length B"
    and okA: "d_success dA" "d_parsed dA = Some pA"
    and okB: "d_success dB" "d_parsed dB = Some pB"
  let ?n = "next_id s"
  let ?s2 = "run ops [Input A, Input B] s"
  have aw: "awaiting ?s2 = awaiting s @ [(?n, ShowAIPreview_await), (Suc ?n, ShowAIPreview_await)]"
    using long by (auto simp: run_def step_def showAIPreview_def fetch_def)
  have m: "map_of (awaiting ?s2) ?n = Some ShowAIPreview_await"
    "map_of (awaiting ?s2) (Suc ?n) = Some ShowAIPreview_await"
    using map_of_awaiting_new [OF fresh] aw by simp_all
  have k1: "map_of (awaiting (step ops (Settle (Suc ?n) (Body (JObject dB))) ?s2)) ?n =
      Some ShowAIPreview_await"
    using m(1) by (intro step_keeps_await) auto
  have k2: "map_of (awaiting (step ops (Settle ?n (Body (JObject dA))) ?s2)) (Suc ?n) =
      Some ShowAIPreview_await"
    using m(2) by (intro step_keeps_await) auto
  have r1: "run ops [Input A, Input B, Settle (Suc ?n) (Body (JObject dB)),
             Settle ?n (Body (JObject dA))] s =
        step ops (Settle ?n (Body (JObject dA))) (step ops (Settle (Suc ?n) (Body (JObject dB))) ?s2)"
    by (simp add: run_def)
  have r2: "run ops [Input A, Input B, Settle ?n (Body (JObject dA)),
             Settle (Suc ?n) (Body (JObject dB))] s =
        step ops (Settle (Suc ?n) (Body (JObject dB))) (step ops (Settle ?n (Body (JObject dA))) ?s2)"
    by (simp add: run_def)
  note A = showAIPreview_settle [OF k1, of dA pA ops, THEN conjunct1]
  note B = showAIPreview_settle [OF k2, of dB pB ops, THEN conjunct1]
  show "aiPreviewText (run ops [Input A, Input B, Settle (Suc ?n) (Body (JObject dB)),
          Settle ?n (Body (JObject dA))] s) = previewHTML ops pA"
    unfolding r1 using A okA by blast
  show "\<not> aiPreview_hidden (run ops [Input A, Input B, Settle (Suc ?n) (Body (JObject dB)),
          Settle ?n (Body (JObject dA))] s)"
    unfolding r1 using A okA by blast
  show "aiPreviewText (run ops [Input A, Input B, Settle ?n (Body (JObject dA)),
          Settle (Suc ?n) (Body (JObject dB))] s) = previewHTML ops pB"
    unfolding r2 using B okB by blast
  show "\<not> aiPreview_hidden (run ops [Input A, Input B, Settle ?n (Body (JObject dA)),
          Settle (Suc ?n) (Body (JObject dB))] s)"
    unfolding r2 using B okB by blast
qed (use showAIPreview_settle in blast)+

text \<open>
  The theorem on the inputs \<^verbatim>\<open>"buy"\<close> and \<^verbatim>\<open>"buy milk"\<close>, the responses arriving in
  order, the second with an interpretation or without.
\<close>

theorem preview_last_arrival_wins_witness:
  "aiPreviewText (run no_confidence [Input (lit ''buy''), Input (lit ''buy milk''),
       Settle 0 (interpreted (titled (lit ''Buy''))),
       Settle 1 (interpreted (titled (lit ''Buy milk'')))] emptyPage) =
     lit ''<strong>Buy milk</strong>'' \<and>
   aiPreview_hidden (run no_confidence [Input (lit ''buy''), Input (lit ''buy milk''),
       Settle 0 (interpreted (titled (lit ''Buy''))),
       Settle 1 (reply False None)] emptyPage) \<and>
   aiPreviewText (run no_confidence [Input (lit ''buy''), Input (lit ''buy milk''),
       Settle 0 (interpreted (titled (lit ''Buy''))),
       Settle 1 (reply False None)] emptyPage) = lit ''<strong>Buy</strong>''"
proof -
  define dA :: "unit data" where
    "dA = \<lparr>d_success = True, d_error = None, d_parsed = Some (titled (lit ''Buy'')),
           d_tasks = None\<rparr>"
  define dB :: "unit data" where
    "dB = \<lparr>d_success = True, d_error = None, d_parsed = Some (titled (lit ''Buy milk'')),
           d_tasks = None\<rparr>"
  define s1 where "s1 = run no_confidence [Input (lit ''buy''), Input (lit ''buy milk''),
       Settle 0 (Body (JObject dA))] emptyPage"
  note T = preview_last_arrival_wins [where ops = no_confidence]
  have h: "\<forall>j\<in>fst ` set (awaiting emptyPage). j < next_id emptyPage"
    "3 \<le> length (lit ''buy'')" "3 \<le> length (lit ''buy milk'')"
    "d_success dA" "d_parsed dA = Some (titled (lit ''Buy''))"
    "d_success dB" "d_parsed dB = Some (titled (lit ''Buy milk''))" "next_id emptyPage = 0"
    by (simp_all add: emptyPage_def lit_def dA_def dB_def)
  have P1: "aiPreviewText (run no_confidence [Input (lit ''buy''), Input (lit ''buy milk''),
          Settle (next_id emptyPage) (Body (JObject dA)),
          Settle (Suc (next_id emptyPage)) (Body (JObject dB))] emptyPage) =
       previewHTML no_confidence (titled (lit ''Buy milk''))"
    using T [where s = emptyPage and A = "lit ''buy''" and B = "lit ''buy milk''" and dA = dA
               and dB = dB and pA = "titled (lit ''Buy'')" and pB = "titled (lit ''Buy milk'')",
             THEN conjunct2, THEN conjunct2] h(1-7)
    by blast
  have s1: "map_of (awaiting s1) 1 = Some ShowAIPreview_await"
    "aiPreviewText s1 = lit ''<strong>Buy</strong>''"
    by (simp_all add: s1_def dA_def previewHTML_def example_defs eval_defs)
  have f: "\<forall>d p. reply False None = Body (JObject d) \<and> d_success d \<longrightarrow> d_parsed d \<noteq> Some p"
    by (simp add: reply_def)
  have P2: "aiPreview_hidden (step no_confidence (Settle 1 (reply False None)) s1) \<and>
      aiPreviewText (step no_confidence (Settle 1 (reply False None)) s1) = aiPreviewText s1"
    using T [where s' = s1 and k = 1 and r = "reply False None", THEN conjunct2, THEN conjunct1]
      s1(1) f by blast
  have pv: "previewHTML no_confidence (titled (lit ''Buy milk'')) = lit ''<strong>Buy milk</strong>''"
    by (simp add: previewHTML_def titled_def lit_def)
  show ?thesis
    using P1 P2 s1(2) pv h(8)
    by (simp add: run_def s1_def dA_def dB_def interpreted_def)
qed

text \<open>
  The claim as first stated, that the preview shown at the end reflects B's result and
  never A's, fails when B's response arrives first: the preview then shows A's title.
\<close>

theorem stale_preview_counterexample:
  "aiPreviewText (run no_confidence [Input (lit ''buy''), Input (lit ''buy milk''),
       Settle 1 (interpreted (titled (lit ''Buy milk''))),
       Settle 0 (interpreted (titled (lit ''Buy'')))] emptyPage) = lit ''<strong>Buy</strong>'' \<and>
   \<not> aiPreview_hidden (run no_confidence [Input (lit ''buy''), Input (lit ''buy milk''),
       Settle 1 (interpreted (titled (lit ''Buy milk''))),
       Settle 0 (interpreted (titled (lit ''Buy'')))] emptyPage) \<and>
   previewHTML no_confidence (titled (lit ''Buy milk'')) = lit ''<strong>Buy milk</strong>'' \<and>
   lit ''<strong>Buy</strong>'' \<noteq> lit ''<strong>Buy milk</strong>''"
  by (simp add: previewHTML_def example_defs eval_defs)

subsection \<open>Task text in the list markup\<close>



subsection \<open>Values that are not escaped\<close>

text \<open>
  Claim C9. Escaping is applied to the title and the original text of a task and to
  nothing else. In the markup of a task, a non-empty date and a non-empty time stand as
  the service returned them, between markup that does not depend on them; in the markup
  of the preview, so do the title and a non-empty date and time of the interpretation.
  That markup is what is assigned to \<^verbatim>\<open>innerHTML\<close> of the preview and of the container. So
  a value such as \<^verbatim>\<open><img src=x onerror=alert(1)>\<close> reaches the page as a tag, where
  \<^verbatim>\<open>escapeHtml\<close> would have made it text.
\<close>

theorem service_values_unescaped:
  "(\<exists>pre mid post. \<forall>x y. x \<noteq> [] \<and> y \<noteq> [] \<longrightarrow>
      createTaskHTML (t\<lparr>date := Some x, time := Some y\<rparr>) = pre @ x @ mid @ y @ post)
   \<and>
   (\<exists>m1 m2 post. \<forall>x y z. y \<noteq> [] \<and> z \<noteq> [] \<longrightarrow>
      previewHTML ops (p\<lparr>p_title := x, p_date := Some y, p_time := Some z\<rparr>) =
        lit ''<strong>'' @ x @ m1 @ y @ m2 @ z @ post)
   \<and>
   (map_of (awaiting s) k = Some ShowAIPreview_await \<and> d_success d \<and> d_parsed d = Some p' \<longrightarrow>
      \<not> aiPreview_hidden (step ops (Settle k (Body (JObject d))) s) \<and>
      aiPreviewText (step ops (Settle k (Body (JObject d))) s) = previewHTML ops p')
   \<and>
   (map_of (awaiting s) k = Some LoadTasks_await \<and> d_tasks d = Some ts \<and> ts \<noteq> [] \<longrightarrow>
      tasksContainer (step ops (Settle k (Body (JObject d))) s) = concat (map createTaskHTML ts))"
proof (intro conjI impI; (elim conjE)?)
  show "\<exists>pre mid post. \<forall>x y. x \<noteq> [] \<and> y \<noteq> [] \<longrightarrow>
      createTaskHTML (t\<lparr>date := Some x, time := Some y\<rparr>) = pre @ x @ mid @ y @ post"
    unfolding createTaskHTML_def Let_def
    apply (simp split del: if_split cong: if_cong)
    apply (intro raw2_prepend raw2_start raw1_prepend raw1_start)
    done
  show "\<exists>m1 m2 post. \<forall>x y z. y \<noteq> [] \<and> z \<noteq> [] \<longrightarrow>
      previewHTML ops (p\<lparr>p_title := x, p_date := Some y, p_time := Some z\<rparr>) =
        lit ''<strong>'' @ x @ m1 @ y @ m2 @ z @ post"
    unfolding previewHTML_def
    apply (simp split del: if_split cong: if_cong)
    apply (rule exI [of _ "lit ''</strong>'' @ lit '' <span class=\"badge bg-success\">''"])
    apply (rule exI [of _ "lit ''</span>'' @ lit '' <span class=\"badge bg-info\">''"])
    apply (rule exI)
    apply (intro allI impI)
    apply (simp only: append_assoc)
    done
qed (auto simp: step_def resume_def method_defs renderTasks_def updateStats_def Let_def
       split: resume_splits)

text \<open>
  The theorem on an interpretation whose title is \<^verbatim>\<open><img src=x onerror=alert(1)>\<close> and on a
  task whose date is \<^verbatim>\<open><b>\<close>.
\<close>

theorem service_values_unescaped_witness:
  "aiPreviewText (run no_confidence
      [Input (lit ''abc''), Settle 0 (interpreted (titled (lit ''<img src=x onerror=alert(1)>'')))]
      emptyPage) = lit ''<strong><img src=x onerror=alert(1)></strong>'' \<and>
   escapeHtml (lit ''<img src=x onerror=alert(1)>'') = lit ''&lt;img src=x onerror=alert(1)&gt;'' \<and>
   sublist (lit ''<b>'')
     (createTaskHTML \<lparr>task_id = 1, title = lit ''a'', date = Some (lit ''<b>''),
        time = Some (lit ''5pm''), original_text = lit ''a'', completed = False\<rparr>) \<and>
   sublist (lit ''<b>'')
     (tasksContainer (run no_confidence
        [Settle 0 (listing [\<lparr>task_id = 1, title = lit ''a'', date = Some (lit ''<b>''),
            time = Some (lit ''5pm''), original_text = lit ''a'', completed = False\<rparr>])]
        (AITodoApp emptyPage)))"
proof -
  define v where "v = lit ''<img src=x onerror=alert(1)>''"
  define t where "t = \<lparr>task_id = 1, title = lit ''a'', date = Some (lit ''<b>''),
        time = Some (lit ''5pm''), original_text = lit ''a'', completed = False\<rparr>"
  define d :: "unit data" where
    "d = \<lparr>d_success = True, d_error = None, d_parsed = Some (titled v), d_tasks = None\<rparr>"
  define d' :: "unit data" where
    "d' = \<lparr>d_success = False, d_error = None, d_parsed = None, d_tasks = Some [t]\<rparr>"
  define s1 where "s1 = step no_confidence (Input (lit ''abc'')) emptyPage"
  define s0 where "s0 = AITodoApp emptyPage"
  note T = service_values_unescaped [where ops = no_confidence]
  have s1: "map_of (awaiting s1) 0 = Some ShowAIPreview_await"
    by (simp add: s1_def example_defs eval_defs)
  have s0: "map_of (awaiting s0) 0 = Some LoadTasks_await"
    by (simp add: s0_def AITodoApp_def example_defs eval_defs)
  have d: "d_success d" "d_parsed d = Some (titled v)" "d_tasks d' = Some [t]" "[t] \<noteq> []"
    by (simp_all add: d_def d'_def)
  have P1: "aiPreviewText (step no_confidence (Settle 0 (Body (JObject d))) s1) =
      previewHTML no_confidence (titled v)"
    using T [where s = s1 and k = 0 and d = d and p' = "titled v",
             THEN conjunct2, THEN conjunct2, THEN conjunct1] s1 d by blast
  have P2: "tasksContainer (step no_confidence (Settle 0 (Body (JObject d'))) s0) =
      concat (map createTaskHTML [t])"
    using T [where s = s0 and k = 0 and d = d' and ts = "[t]",
             THEN conjunct2, THEN conjunct2, THEN conjunct2] s0 d by blast
  obtain pre mid post where
    "\<forall>x y. x \<noteq> [] \<and> y \<noteq> [] \<longrightarrow>
       createTaskHTML (t\<lparr>date := Some x, time := Some y\<rparr>) = pre @ x @ mid @ y @ post"
    using T [where t = t, THEN conjunct1] by blast
  then have "createTaskHTML (t\<lparr>date := Some (lit ''<b>''), time := Some (lit ''5pm'')\<rparr>) =
      pre @ lit ''<b>'' @ mid @ lit ''5pm'' @ post"
    by (simp add: lit_def)
  moreover have "t\<lparr>date := Some (lit ''<b>''), time := Some (lit ''5pm'')\<rparr> = t"
    by (simp add: t_def)
  ultimately have P3: "sublist (lit ''<b>'') (createTaskHTML t)"
    by (metis sublist_appendI)
  have pv: "previewHTML no_confidence (titled v) = lit ''<strong>'' @ v @ lit ''</strong>''"
    by (simp add: previewHTML_def titled_def)
  have e: "escapeHtml v = lit ''&lt;img src=x onerror=alert(1)&gt;''"
    by (simp add: v_def escapeHtml_def escapeChar_def lit_def)
  have l: "lit ''<strong>'' @ v @ lit ''</strong>'' = lit ''<strong><img src=x onerror=alert(1)></strong>''"
    by (simp add: v_def lit_def)
  show ?thesis
    using P1 P2 P3 pv e l
    unfolding run_def foldl.simps interpreted_def listing_def v_def [symmetric] t_def [symmetric]
      d_def [symmetric] d'_def [symmetric] s1_def [symmetric] s0_def [symmetric]
    by simp
qed

end
